theory Spec2Isabelle
  imports Complex_Main
begin

section \<open>Data model\<close>

text \<open>
  The three source files (project.py, projectv2.py, projectv3.py) each hold a copy of the
  tariff engine. Their Python floats are modelled as exact rationals (\<open>rat\<close>): every
  statement below is about the arithmetic the code writes down, not about binary rounding.

  A pandas timestamp is a calendar day (an ordinal, \<open>int\<close>) and a time of day, counted in
  microseconds since midnight as \<open>datetime.time\<close> does; timestamps compare
  lexicographically, day first.
\<close>

type_synonym time_of_day = nat

record datetime =
  day :: int
  tod :: time_of_day

text \<open>\<open>hm h m\<close> is the time of day \<open>h:m:00\<close>, what \<open>strptime(_, "%H:%M").time()\<close> and
  \<open>dt_time(h, 0)\<close> build.\<close>

definition hm :: "nat \<Rightarrow> nat \<Rightarrow> time_of_day" where
  "hm h m = (h * 60 + m) * 60000000"

definition dt_le :: "datetime \<Rightarrow> datetime \<Rightarrow> bool" where
  "dt_le a b = (day a < day b \<or> (day a = day b \<and> tod a \<le> tod b))"

text \<open>One row of the usage data frame: the columns \<open>timestamp\<close> and \<open>kWh\<close>.\<close>

record reading =
  timestamp :: datetime
  kWh :: rat

type_synonym series = "reading list"

text \<open>\<open>df["kWh"].sum()\<close>\<close>

definition kWh_sum :: "series \<Rightarrow> rat" where
  "kWh_sum df = sum_list (map kWh df)"

subsection \<open>Dictionaries\<close>

text \<open>
  A Python dict keeps its keys in insertion order, and the order of \<open>breakdown\<close> is visible
  to callers, so a dict is an association list: \<open>d[k] = v\<close> replaces the value of a key
  that is present, in place, and appends a new key at the end.
\<close>

type_synonym 'v dict = "(string \<times> 'v) list"

fun dict_get :: "'v dict \<Rightarrow> string \<Rightarrow> 'v \<Rightarrow> 'v" where
  "dict_get [] k d = d"
| "dict_get ((k', v) # rest) k d = (if k' = k then v else dict_get rest k d)"

fun dict_set :: "'v dict \<Rightarrow> string \<Rightarrow> 'v \<Rightarrow> 'v dict" where
  "dict_set [] k v = [(k, v)]"
| "dict_set ((k', v') # rest) k v =
     (if k' = k then (k, v) # rest else (k', v') # dict_set rest k v)"

text \<open>\<open>d.values()\<close> and \<open>d.keys()\<close>\<close>

definition dict_values :: "'v dict \<Rightarrow> 'v list" where
  "dict_values d = map snd d"

definition dict_keys :: "'v dict \<Rightarrow> string list" where
  "dict_keys d = map fst d"

text \<open>\<open>breakdown[period] = breakdown.get(period, 0) + c\<close>\<close>

definition dict_add :: "rat dict \<Rightarrow> string \<Rightarrow> rat \<Rightarrow> rat dict" where
  "dict_add d k c = dict_set d k (dict_get d k 0 + c)"

subsection \<open>Plans\<close>

text \<open>
  One entry of \<open>touRates\<close>: the keys \<open>start\<close>, \<open>end\<close>, \<open>rate\<close> and \<open>default\<close> of the
  source's inner dict (\<open>end\<close> is written \<open>end_t\<close>). A default window is built by the callers
  with a rate only; its \<open>start\<close> and \<open>end_t\<close> are never read. \<open>touRates\<close> itself is a dict
  from period name to such an entry, iterated in insertion order.
\<close>

record rate_window =
  start :: time_of_day
  end_t :: time_of_day
  rate :: rat
  is_default :: bool

type_synonym tou_rates = "rate_window dict"

text \<open>One entry of project.py's and projectv2.py's \<open>tiers\<close>: \<open>{"limit": .., "rate": ..}\<close>,
  where a limit of \<open>None\<close> means unlimited.\<close>

record tier =
  limit :: "rat option"
  tier_rate :: rat

subsection \<open>Bills\<close>

text \<open>
  The calculators return dicts of different shapes. One record covers them: a key that a
  calculator does not put into its result is \<open>None\<close>. \<open>breakdown\<close> is a dict from label
  to cost, except in project.py's tiered calculator, where it is a list of
  \<open>{"used", "rate", "cost"}\<close> entries.
\<close>

record tier_use =
  used :: rat
  at_rate :: rat
  cost :: rat

datatype breakdown_t = Costs "rat dict" | Tier_uses "tier_use list"

record bill =
  scheme :: "string option"
  totalKWh :: "rat option"
  breakdown :: breakdown_t
  fixedFee :: "rat option"
  totalBill :: rat

datatype py_error = ValueError | IndexError

section \<open>project.py\<close>

subsection \<open>Flat rate\<close>

definition flatRateTariff :: "series \<Rightarrow> rat \<Rightarrow> rat \<Rightarrow> bill" where
  "flatRateTariff df flatRate fixedFee' =
     (let totalKWh' = kWh_sum df;
          energyCost = totalKWh' * flatRate;
          totalBill' = energyCost + fixedFee'
      in \<lparr>scheme = None, totalKWh = Some totalKWh',
          breakdown = Costs [(''Energy Cost'', energyCost)],
          fixedFee = Some fixedFee', totalBill = totalBill'\<rparr>)"

subsection \<open>Time of use\<close>

text \<open>
  The window test of the inner loop, as one predicate: the source's two branches,
  \<open>start <= ts < end\<close> when \<open>start < end\<close> and \<open>ts >= start or ts < end\<close> otherwise.
\<close>

definition window_matches :: "rate_window \<Rightarrow> time_of_day \<Rightarrow> bool" where
  "window_matches info ts =
     (if start info < end_t info then start info \<le> ts \<and> ts < end_t info
      else ts \<ge> start info \<or> ts < end_t info)"

text \<open>
  The first inner loop \<open>for period, info in touRates.items()\<close> of one row: default
  windows are skipped (\<open>continue\<close>), the first window whose test succeeds is charged and
  the loop is left (\<open>break\<close>). It returns the breakdown and the flag \<open>applied\<close>.
\<close>

fun apply_windows :: "tou_rates \<Rightarrow> time_of_day \<Rightarrow> rat \<Rightarrow> rat dict \<Rightarrow> rat dict \<times> bool" where
  "apply_windows [] ts k bd = (bd, False)"
| "apply_windows ((period, info) # rest) ts k bd =
     (if is_default info then apply_windows rest ts k bd
      else if start info < end_t info then
        (if start info \<le> ts \<and> ts < end_t info
         then (dict_add bd period (k * rate info), True)
         else apply_windows rest ts k bd)
      else
        (if ts \<ge> start info \<or> ts < end_t info
         then (dict_add bd period (k * rate info), True)
         else apply_windows rest ts k bd))"

text \<open>The second inner loop, run when \<open>applied\<close> is false: every default window is
  charged (there is no \<open>break\<close>).\<close>

fun apply_defaults :: "tou_rates \<Rightarrow> rat \<Rightarrow> rat dict \<Rightarrow> rat dict" where
  "apply_defaults [] k bd = bd"
| "apply_defaults ((period, info) # rest) k bd =
     (if is_default info then apply_defaults rest k (dict_add bd period (k * rate info))
      else apply_defaults rest k bd)"

text \<open>The body of \<open>for _, row in df.iterrows()\<close>, and the loop over the rows.\<close>

definition tou_row :: "tou_rates \<Rightarrow> rat dict \<Rightarrow> reading \<Rightarrow> rat dict" where
  "tou_row touRates bd row =
     (let ts = tod (timestamp row);
          k = kWh row;
          (bd', applied) = apply_windows touRates ts k bd
      in if \<not> applied then apply_defaults touRates k bd' else bd')"

definition tou_rows :: "tou_rates \<Rightarrow> series \<Rightarrow> rat dict" where
  "tou_rows touRates df = foldl (tou_row touRates) [] df"

definition touTariff :: "series \<Rightarrow> tou_rates \<Rightarrow> rat \<Rightarrow> bill" where
  "touTariff df touRates fixedFee' =
     (let bd = tou_rows touRates df;
          total = sum_list (dict_values bd) + fixedFee'
      in \<lparr>scheme = None, totalKWh = None, breakdown = Costs bd,
          fixedFee = Some fixedFee', totalBill = total\<rparr>)"

subsection \<open>Tiered\<close>

text \<open>
  The loop \<open>for tier in tiers\<close> over the state \<open>(remaining, previousLimit, breakdown,
  cost)\<close>; the first branch ends the loop (\<open>break\<close>).
\<close>

fun tier_loop :: "tier list \<Rightarrow> rat \<Rightarrow> rat \<Rightarrow> tier_use list \<Rightarrow> rat \<Rightarrow> tier_use list \<times> rat" where
  "tier_loop [] remaining previousLimit bd c = (bd, c)"
| "tier_loop (t # rest) remaining previousLimit bd c =
     (case limit t of
        None \<Rightarrow>
          (let used' = remaining; tierCost = used' * tier_rate t
           in (bd @ [\<lparr>used = used', at_rate = tier_rate t, cost = tierCost\<rparr>], c + tierCost))
      | Some l \<Rightarrow>
          (if remaining \<le> l - previousLimit then
             (let used' = remaining; tierCost = used' * tier_rate t
              in (bd @ [\<lparr>used = used', at_rate = tier_rate t, cost = tierCost\<rparr>], c + tierCost))
           else
             (let used' = l - previousLimit; tierCost = used' * tier_rate t
              in tier_loop rest (remaining - used') l
                   (bd @ [\<lparr>used = used', at_rate = tier_rate t, cost = tierCost\<rparr>])
                   (c + tierCost))))"

definition tieredTariff :: "series \<Rightarrow> tier list \<Rightarrow> rat \<Rightarrow> bill" where
  "tieredTariff df tiers fixedFee' =
     (let totalKWh' = kWh_sum df;
          (bd, c) = tier_loop tiers totalKWh' 0 [] 0
      in \<lparr>scheme = None, totalKWh = Some totalKWh', breakdown = Tier_uses bd,
          fixedFee = Some fixedFee', totalBill = c + fixedFee'\<rparr>)"

subsection \<open>Range filter\<close>

definition filterDataByDuration :: "series \<Rightarrow> datetime \<Rightarrow> datetime \<Rightarrow> series" where
  "filterDataByDuration df startDate endDate =
     filter (\<lambda>r. dt_le startDate (timestamp r) \<and> dt_le (timestamp r) endDate) df"

subsection \<open>Comparison\<close>







subsection \<open>The comparison menu\<close>

text \<open>
  \<open>tariffs\<close> is a dict with the optional keys \<open>flat\<close>, \<open>tou\<close> and \<open>tiered\<close>, each holding the
  plan's parameters and its fixed fee; \<open>calculateBills\<close> fills \<open>results\<close> in this order.
\<close>

record tariffs =
  flat_plan :: "(rat \<times> rat) option"
  tou_plan :: "(tou_rates \<times> rat) option"
  tiered_plan :: "(tier list \<times> rat) option"

definition calculateBills :: "series \<Rightarrow> tariffs \<Rightarrow> bill dict" where
  "calculateBills df ts =
     (let results = [];
          results = (case flat_plan ts of None \<Rightarrow> results
                     | Some (r, fee) \<Rightarrow> dict_set results ''Flat Rate'' (flatRateTariff df r fee));
          results = (case tou_plan ts of None \<Rightarrow> results
                     | Some (rs, fee) \<Rightarrow> dict_set results ''TOU'' (touTariff df rs fee));
          results = (case tiered_plan ts of None \<Rightarrow> results
                     | Some (tiers, fee) \<Rightarrow> dict_set results ''Tiered'' (tieredTariff df tiers fee))
      in results)"

text \<open>
  \<open>billComparisonMenu\<close> reads the two dates and the plans from the console; the model takes
  them as arguments. It returns \<open>None\<close> (after the message that the range holds no data)
  when the filtered frame is empty, and the bills otherwise; printing and plotting are left
  out.
\<close>

definition billComparisonMenu :: "series \<Rightarrow> datetime \<Rightarrow> datetime \<Rightarrow> tariffs \<Rightarrow> bill dict option" where
  "billComparisonMenu df startDate endDate ts =
     (let dfFiltered = filterDataByDuration df startDate endDate
      in if dfFiltered = [] then None else Some (calculateBills dfFiltered ts))"

section \<open>projectv2.py\<close>

text \<open>The label \<open>f"Tier {i}"\<close>: the decimal digits of \<open>i\<close> after \<open>Tier\<close> and a space.\<close>

definition digit_char :: "nat \<Rightarrow> char" where
  "digit_char d = ''0123456789'' ! d"

fun show_nat :: "nat \<Rightarrow> string" where
  "show_nat n = (if n < 10 then [digit_char n] else show_nat (n div 10) @ [digit_char (n mod 10)])"

declare show_nat.simps [simp del]

definition tier_label :: "nat \<Rightarrow> string" where
  "tier_label i = ''Tier '' @ show_nat i"

definition flatRateTariff_v2 :: "series \<Rightarrow> rat \<Rightarrow> rat \<Rightarrow> bill" where
  "flatRateTariff_v2 df rate' fixed =
     (let total = kWh_sum df;
          energy = total * rate'
      in \<lparr>scheme = None, totalKWh = None,
          breakdown = Costs [(''Energy'', energy), (''Fixed Fee'', fixed)],
          fixedFee = None, totalBill = energy + fixed\<rparr>)"

text \<open>The row loop of projectv2.py's \<open>touTariff\<close> is the one of project.py, statement by
  statement (\<open>tou_rows\<close>); the fixed fee is then stored in the breakdown and the values are
  summed.\<close>

definition touTariff_v2 :: "series \<Rightarrow> tou_rates \<Rightarrow> rat \<Rightarrow> bill" where
  "touTariff_v2 df rates fixed =
     (let bd = tou_rows rates df;
          bd' = dict_set bd ''Fixed Fee'' fixed;
          total = sum_list (dict_values bd')
      in \<lparr>scheme = None, totalKWh = None, breakdown = Costs bd',
          fixedFee = None, totalBill = total\<rparr>)"

text \<open>The loop \<open>for i, tier in enumerate(tiers, start=1)\<close> over \<open>(remaining, prev,
  breakdown, cost)\<close>.\<close>

fun tier_loop_v2 :: "tier list \<Rightarrow> nat \<Rightarrow> rat \<Rightarrow> rat \<Rightarrow> rat dict \<Rightarrow> rat \<Rightarrow> rat dict \<times> rat" where
  "tier_loop_v2 [] i remaining prev bd c = (bd, c)"
| "tier_loop_v2 (t # rest) i remaining prev bd c =
     (case limit t of
        None \<Rightarrow>
          (let used' = remaining; tierCost = used' * tier_rate t
           in (dict_set bd (tier_label i) tierCost, c + tierCost))
      | Some l \<Rightarrow>
          (if remaining \<le> l - prev then
             (let used' = remaining; tierCost = used' * tier_rate t
              in (dict_set bd (tier_label i) tierCost, c + tierCost))
           else
             (let used' = l - prev; tierCost = used' * tier_rate t
              in tier_loop_v2 rest (i + 1) (remaining - used') l
                   (dict_set bd (tier_label i) tierCost) (c + tierCost))))"

definition tieredTariff_v2 :: "series \<Rightarrow> tier list \<Rightarrow> rat \<Rightarrow> bill" where
  "tieredTariff_v2 df tiers fixed =
     (let total = kWh_sum df;
          (bd, c) = tier_loop_v2 tiers 1 total 0 [] 0;
          bd' = dict_set bd ''Fixed Fee'' fixed
      in \<lparr>scheme = None, totalKWh = None, breakdown = Costs bd',
          fixedFee = None, totalBill = c + fixed\<rparr>)"

section \<open>projectv3.py\<close>

definition flatRateTariff_v3 :: "series \<Rightarrow> rat \<Rightarrow> rat \<Rightarrow> bill" where
  "flatRateTariff_v3 df flatRate fixedFee' =
     (let totalKWh' = kWh_sum df;
          energyCost = totalKWh' * flatRate;
          bd = [(''Energy'', energyCost)]
      in \<lparr>scheme = Some ''Flat'', totalKWh = Some totalKWh', breakdown = Costs bd,
          fixedFee = Some fixedFee', totalBill = energyCost + fixedFee'\<rparr>)"

text \<open>Again the row loop is \<open>tou_rows\<close>, statement by statement (\<open>info.get("default")\<close> for
  \<open>"default" in info and info["default"]\<close>).\<close>

definition touTariff_v3 :: "series \<Rightarrow> tou_rates \<Rightarrow> rat \<Rightarrow> bill" where
  "touTariff_v3 df touRates fixedFee' =
     (let breakdown_costs = tou_rows touRates df;
          breakdown_costs' = dict_set breakdown_costs ''Fixed Fee'' fixedFee';
          total = sum_list (dict_values breakdown_costs')
      in \<lparr>scheme = Some ''TOU'', totalKWh = None, breakdown = Costs breakdown_costs',
          fixedFee = Some fixedFee', totalBill = total\<rparr>)"

text \<open>
  An entry of \<open>tier_limits\<close>: the callers pass the text of an entry field (a string, empty
  for a blank field); \<open>None\<close> and numbers are what the function's own comments and the
  other versions use. \<open>truthy\<close> is Python's truth value of such an entry (\<open>not limit\<close> is
  its negation). \<open>float(limit)\<close> on a string is Python's parser, which is not part of this
  repository: it is the parameter \<open>str_float\<close>, \<open>None\<close> where \<open>float\<close> raises \<open>ValueError\<close>.
\<close>

datatype py_limit = PyNone | PyStr string | PyNum rat

fun truthy :: "py_limit \<Rightarrow> bool" where
  "truthy PyNone = False"
| "truthy (PyStr s) = (s \<noteq> [])"
| "truthy (PyNum x) = (x \<noteq> 0)"

fun to_float :: "(string \<Rightarrow> rat option) \<Rightarrow> py_limit \<Rightarrow> py_error + rat" where
  "to_float str_float PyNone = Inl ValueError"
| "to_float str_float (PyStr s) = (case str_float s of None \<Rightarrow> Inl ValueError | Some x \<Rightarrow> Inr x)"
| "to_float str_float (PyNum x) = Inr x"

text \<open>
  The loop \<open>for i, limit in enumerate(tier_limits)\<close> over \<open>(remaining_usage, prev_limit,
  breakdown)\<close>. \<open>tier_rates[i]\<close> raises \<open>IndexError\<close> beyond the list; the loop is left
  (\<open>break\<close>) when \<open>remaining_usage <= 0\<close>. (\<open>float(None)\<close> raises \<open>TypeError\<close>, which the
  guard \<open>not limit\<close> makes unreachable; \<open>to_float\<close> gives it an error all the same.)
\<close>

fun tier_loop_v3 ::
  "(string \<Rightarrow> rat option) \<Rightarrow> py_limit list \<Rightarrow> rat list \<Rightarrow> nat \<Rightarrow> rat \<Rightarrow> rat \<Rightarrow> rat dict
     \<Rightarrow> py_error + (rat \<times> rat dict)" where
  "tier_loop_v3 str_float [] tier_rates i remaining_usage prev_limit bd = Inr (remaining_usage, bd)"
| "tier_loop_v3 str_float (limit' # rest) tier_rates i remaining_usage prev_limit bd =
     (if length tier_rates \<le> i then Inl IndexError
      else
        (let rate' = tier_rates ! i in
         case (if \<not> truthy limit' then Inr (remaining_usage, prev_limit + remaining_usage)
               else (case to_float str_float limit' of
                       Inl e \<Rightarrow> Inl e
                     | Inr l \<Rightarrow> Inr (min remaining_usage (l - prev_limit), l))) of
           Inl e \<Rightarrow> Inl e
         | Inr (used', prev_limit') \<Rightarrow>
             (let bd' = dict_set bd (tier_label (i + 1)) (used' * rate');
                  remaining_usage' = remaining_usage - used'
              in if remaining_usage' \<le> 0 then Inr (remaining_usage', bd')
                 else tier_loop_v3 str_float rest tier_rates (i + 1) remaining_usage' prev_limit' bd')))"

definition tieredTariff_v3 ::
  "(string \<Rightarrow> rat option) \<Rightarrow> series \<Rightarrow> py_limit list \<Rightarrow> rat list \<Rightarrow> rat \<Rightarrow> py_error + bill" where
  "tieredTariff_v3 str_float df tier_limits tier_rates fixed_fee =
     (let total_usage = kWh_sum df in
      case tier_loop_v3 str_float tier_limits tier_rates 0 total_usage 0 [] of
        Inl e \<Rightarrow> Inl e
      | Inr (remaining_usage, bd) \<Rightarrow>
          (let bd1 = (if remaining_usage > 0 \<and> length tier_rates > length tier_limits
                      then dict_set bd (tier_label (length tier_limits + 1))
                             (remaining_usage * last tier_rates)
                      else bd);
               bd2 = dict_set bd1 ''Fixed Fee'' fixed_fee;
               total_bill = sum_list (dict_values bd2)
           in Inr \<lparr>scheme = Some ''Tiered'', totalKWh = Some total_usage, breakdown = Costs bd2,
                   fixedFee = Some fixed_fee, totalBill = total_bill\<rparr>))"

text \<open>
  \<open>filter_by_duration\<close>: both bounds are \<open>datetime\<close> values (what \<open>parse_date\<close> and the
  column's \<open>min()\<close>/\<open>max()\<close> give), so both \<open>isinstance\<close> tests succeed: the start becomes
  \<open>00:00:00\<close> of its day and the end \<open>dt_time.max\<close>, \<open>23:59:59.999999\<close>, of its day.
\<close>

definition dt_time_min :: time_of_day where
  "dt_time_min = 0"

definition dt_time_max :: time_of_day where
  "dt_time_max = 86399999999"

definition filter_by_duration :: "series \<Rightarrow> datetime \<Rightarrow> datetime \<Rightarrow> series" where
  "filter_by_duration df start_dt end_dt =
     (let start_ts = \<lparr>day = day start_dt, tod = dt_time_min\<rparr>;
          end_ts = \<lparr>day = day end_dt, tod = dt_time_max\<rparr>
      in filter (\<lambda>r. dt_le start_ts (timestamp r) \<and> dt_le (timestamp r) end_ts) df)"


section \<open>The two conventions for the fixed fee\<close>

text \<open>
  The specification's invariant on a bill names two conventions; these two predicates
  follow its words. Either the fixed fee is an entry of the breakdown, under the label
  \<open>Fixed Fee\<close>, and the total is the sum of the breakdown's values; or the fee stays beside
  the breakdown and the total is the sum of the breakdown's costs plus the fee.
\<close>

definition fee_in_breakdown :: "bill \<Rightarrow> rat \<Rightarrow> bool" where
  "fee_in_breakdown b fee =
     (case breakdown b of
        Costs d \<Rightarrow> (''Fixed Fee'', fee) \<in> set d \<and> totalBill b = sum_list (dict_values d)
      | Tier_uses us \<Rightarrow> False)"

definition fee_beside_breakdown :: "bill \<Rightarrow> rat \<Rightarrow> bool" where
  "fee_beside_breakdown b fee =
     (case breakdown b of
        Costs d \<Rightarrow> totalBill b = sum_list (dict_values d) + fee
      | Tier_uses us \<Rightarrow> totalBill b = sum_list (map cost us) + fee)"

section \<open>Fixtures\<close>

text \<open>The inputs of the scenarios: a reading of \<open>k\<close> kWh at \<open>h:m\<close>, the window
  \<open>22:00\<close> to \<open>07:00\<close>, and a plan made of that window and a default one.\<close>

definition reading_at :: "nat \<Rightarrow> nat \<Rightarrow> rat \<Rightarrow> reading" where
  "reading_at h m k = \<lparr>timestamp = \<lparr>day = 0, tod = hm h m\<rparr>, kWh = k\<rparr>"

definition night_window :: rate_window where
  "night_window = \<lparr>start = hm 22 0, end_t = hm 7 0, rate = 3 / 20, is_default = False\<rparr>"

definition shoulder_window :: rate_window where
  "shoulder_window = \<lparr>start = 0, end_t = 0, rate = 1 / 4, is_default = True\<rparr>"

definition night_plan :: tou_rates where
  "night_plan = [(''Off-Peak'', night_window), (''Shoulder'', shoulder_window)]"

text \<open>The window \<open>18:00\<close> to \<open>22:00\<close>, and the plan of three periods that every caller
  builds (with the default hours and rates of projectv3.py's form).\<close>

definition peak_window :: rate_window where
  "peak_window = \<lparr>start = hm 18 0, end_t = hm 22 0, rate = 2 / 5, is_default = False\<rparr>"

definition peak_plan :: tou_rates where
  "peak_plan = [(''Peak'', peak_window), (''Off-Peak'', night_window), (''Shoulder'', shoulder_window)]"



text \<open>A plan without a default window.\<close>

definition night_only_plan :: tou_rates where
  "night_only_plan = [(''Off-Peak'', night_window)]"

text \<open>The tiers of the cascading scenario, as project.py and projectv2.py take them, and
  as the two lists projectv3.py takes.\<close>

definition example_tiers :: "tier list" where
  "example_tiers =
     [\<lparr>limit = Some 100, tier_rate = 1 / 5\<rparr>, \<lparr>limit = Some 300, tier_rate = 3 / 10\<rparr>,
      \<lparr>limit = None, tier_rate = 2 / 5\<rparr>]"

definition example_limits :: "py_limit list" where
  "example_limits = [PyNum 100, PyNum 300, PyNone]"

definition example_rates :: "rat list" where
  "example_rates = [1 / 5, 3 / 10, 2 / 5]"

section \<open>The rate window matcher\<close>

lemma apply_windows_Cons:
  "apply_windows ((p, w) # rest) t k bd =
     (if \<not> is_default w \<and> window_matches w t then (dict_add bd p (k * rate w), True)
      else apply_windows rest t k bd)"
  by (simp add: window_matches_def)

lemma apply_windows_skip:
  "\<forall>x\<in>set pre. is_default (snd x) \<or> \<not> window_matches (snd x) t \<Longrightarrow>
     apply_windows (pre @ rest) t k bd = apply_windows rest t k bd"
proof (induction pre)
  case Nil
  then show ?case by simp
next
  case (Cons a pre)
  obtain p w where a: "a = (p, w)" by (cases a)
  from Cons.prems have "is_default w \<or> \<not> window_matches w t" by (simp add: a)
  moreover from Cons have "apply_windows (pre @ rest) t k bd = apply_windows rest t k bd" by simp
  ultimately show ?case unfolding a append_Cons apply_windows_Cons by auto
qed

lemma apply_defaults_append:
  "apply_defaults (pre @ post) k bd = apply_defaults post k (apply_defaults pre k bd)"
  by (induction pre arbitrary: bd) auto


lemmas tou_eval =
  touTariff_def touTariff_v2_def touTariff_v3_def tou_rows_def tou_row_def dict_add_def
  dict_values_def reading_at_def night_plan_def night_window_def shoulder_window_def hm_def
  peak_window_def peak_plan_def

text \<open>
  Claim C2. A window that is not a default and whose start is not before its end (it wraps
  midnight) matches a time of day \<open>t\<close> exactly when \<open>t >= start\<close> or \<open>t < end\<close>; when no
  earlier window of the plan takes the row, the row is charged to this window exactly
  then, and otherwise goes on to the later windows. The window \<open>22:00\<close> to \<open>07:00\<close> matches
  \<open>23:30\<close>, \<open>00:15\<close> and \<open>06:59\<close> and does not match \<open>07:00\<close> or \<open>21:59\<close>: project.py's and
  projectv3.py's calculators bill a reading at \<open>23:30\<close> or \<open>06:59\<close> to that window and a
  reading at \<open>07:00\<close> or \<open>21:59\<close> to the default window.
\<close>

theorem wrap_window_matching:
  "(\<not> is_default w \<and> end_t w \<le> start w \<and>
      (\<forall>x\<in>set pre. is_default (snd x) \<or> \<not> window_matches (snd x) t) \<longrightarrow>
      (window_matches w t \<longleftrightarrow> start w \<le> t \<or> t < end_t w) \<and>
      apply_windows (pre @ (p, w) # post) t k bd =
        (if start w \<le> t \<or> t < end_t w then (dict_add bd p (k * rate w), True)
         else apply_windows post t k bd)) \<and>
   window_matches night_window (hm 23 30) \<and>
   window_matches night_window (hm 0 15) \<and>
   window_matches night_window (hm 6 59) \<and>
   \<not> window_matches night_window (hm 7 0) \<and>
   \<not> window_matches night_window (hm 21 59) \<and>
   breakdown (touTariff [reading_at 23 30 2] night_plan fee) = Costs [(''Off-Peak'', 3 / 10)] \<and>
   breakdown (touTariff [reading_at 6 59 2] night_plan fee) = Costs [(''Off-Peak'', 3 / 10)] \<and>
   breakdown (touTariff [reading_at 7 0 2] night_plan fee) = Costs [(''Shoulder'', 1 / 2)] \<and>
   breakdown (touTariff [reading_at 21 59 2] night_plan fee) = Costs [(''Shoulder'', 1 / 2)] \<and>
   breakdown (touTariff_v3 [reading_at 0 15 2] night_plan fee) =
     Costs [(''Off-Peak'', 3 / 10), (''Fixed Fee'', fee)] \<and>
   breakdown (touTariff_v3 [reading_at 7 0 2] night_plan fee) =
     Costs [(''Shoulder'', 1 / 2), (''Fixed Fee'', fee)]"
proof -
  have general: "(window_matches w t \<longleftrightarrow> start w \<le> t \<or> t < end_t w) \<and>
      apply_windows (pre @ (p, w) # post) t k bd =
        (if start w \<le> t \<or> t < end_t w then (dict_add bd p (k * rate w), True)
         else apply_windows post t k bd)"
    if nd: "\<not> is_default w" and wrap: "end_t w \<le> start w"
      and pre: "\<forall>x\<in>set pre. is_default (snd x) \<or> \<not> window_matches (snd x) t"
  proof -
    have m: "window_matches w t \<longleftrightarrow> start w \<le> t \<or> t < end_t w"
      using wrap by (simp add: window_matches_def)
    have "apply_windows (pre @ (p, w) # post) t k bd = apply_windows ((p, w) # post) t k bd"
      using pre by (rule apply_windows_skip)
    then show ?thesis using nd m by (simp only: apply_windows_Cons) simp
  qed
  have times: "window_matches night_window (hm 23 30)" "window_matches night_window (hm 0 15)"
    "window_matches night_window (hm 6 59)" "\<not> window_matches night_window (hm 7 0)"
    "\<not> window_matches night_window (hm 21 59)"
    by (simp_all add: window_matches_def night_window_def hm_def)
  have bills:
    "breakdown (touTariff [reading_at 23 30 2] night_plan fee) = Costs [(''Off-Peak'', 3 / 10)]"
    "breakdown (touTariff [reading_at 6 59 2] night_plan fee) = Costs [(''Off-Peak'', 3 / 10)]"
    "breakdown (touTariff [reading_at 7 0 2] night_plan fee) = Costs [(''Shoulder'', 1 / 2)]"
    "breakdown (touTariff [reading_at 21 59 2] night_plan fee) = Costs [(''Shoulder'', 1 / 2)]"
    "breakdown (touTariff_v3 [reading_at 0 15 2] night_plan fee) =
       Costs [(''Off-Peak'', 3 / 10), (''Fixed Fee'', fee)]"
    "breakdown (touTariff_v3 [reading_at 7 0 2] night_plan fee) =
       Costs [(''Shoulder'', 1 / 2), (''Fixed Fee'', fee)]"
    by (simp_all add: tou_eval)
  from general times bills show ?thesis by blast
qed

theorem wrap_window_matching_witness:
  "apply_windows ([(''Shoulder'', shoulder_window)] @ (''Off-Peak'', night_window) # []) (hm 0 15) 2 []
     = ([(''Off-Peak'', 3 / 10)], True) \<and>
   apply_windows ([(''Shoulder'', shoulder_window)] @ (''Off-Peak'', night_window) # []) (hm 7 0) 2 []
     = ([], False)"
proof -
  have a: "\<not> is_default night_window \<and> end_t night_window \<le> start night_window \<and>
      (\<forall>x\<in>set [(''Shoulder'', shoulder_window)]. is_default (snd x) \<or> \<not> window_matches (snd x) t)"
    for t
    by (simp add: night_window_def shoulder_window_def hm_def)
  have step: "apply_windows ([(''Shoulder'', shoulder_window)] @ (''Off-Peak'', night_window) # []) t 2 []
      = (if start night_window \<le> t \<or> t < end_t night_window
         then (dict_add [] ''Off-Peak'' (2 * rate night_window), True)
         else apply_windows [] t 2 [])" for t
    using wrap_window_matching [of night_window "[(''Shoulder'', shoulder_window)]" t
        "''Off-Peak''" "[]" 2 "[]" 0] a [of t]
    by blast
  show ?thesis
    unfolding step by (simp add: night_window_def hm_def dict_add_def)
qed



section \<open>The tier allocator\<close>

subsection \<open>Tier labels\<close>

lemma show_nat_digit: "n < 10 \<Longrightarrow> show_nat n = [digit_char n]"
  by (simp add: show_nat.simps [of n])

lemma tier_label_simps:
  "tier_label (Suc 0) = ''Tier 1''" "tier_label 2 = ''Tier 2''" "tier_label 3 = ''Tier 3''"
  by (simp_all add: tier_label_def show_nat_digit digit_char_def)

lemma tier_label_Suc:
  "tier_label (Suc (Suc 0)) = ''Tier 2''" "tier_label (Suc (Suc (Suc 0))) = ''Tier 3''"
  using tier_label_simps by (simp_all add: numeral_2_eq_2 numeral_3_eq_3)

lemma digit_char_code: "d < 10 \<Longrightarrow> (of_char (digit_char d) :: nat) = 48 + d"
proof -
  assume "d < 10"
  then have "d = 0 \<or> d = 1 \<or> d = 2 \<or> d = 3 \<or> d = 4 \<or> d = 5 \<or> d = 6 \<or> d = 7 \<or> d = 8 \<or> d = 9"
    by arith
  then show ?thesis by (elim disjE) (simp_all add: digit_char_def)
qed

lemma digit_char_inj: "a < 10 \<Longrightarrow> b < 10 \<Longrightarrow> digit_char a = digit_char b \<Longrightarrow> a = b"
proof -
  assume a: "a < 10" and b: "b < 10" and e: "digit_char a = digit_char b"
  have "48 + a = (of_char (digit_char a) :: nat)" using a by (simp only: digit_char_code)
  also have "\<dots> = of_char (digit_char b)" by (simp only: e)
  also have "\<dots> = 48 + b" using b by (simp only: digit_char_code)
  finally show "a = b" by simp
qed

lemma show_nat_nonempty: "show_nat n \<noteq> []"
  by (simp add: show_nat.simps [of n])

text \<open>Two numbers with the same decimal digits are equal, so two tiers never share a
  label.\<close>

lemma show_nat_inj: "show_nat n = show_nat m \<Longrightarrow> n = m"
proof (induction n arbitrary: m rule: show_nat.induct)
  case (1 n)
  show ?case
  proof (cases "n < 10")
    case n: True
    show ?thesis
    proof (cases "m < 10")
      case True
      with n "1.prems" show ?thesis
        by (simp add: show_nat.simps [of n] show_nat.simps [of m] digit_char_inj)
    next
      case False
      with n "1.prems" show_nat_nonempty [of "m div 10"] show ?thesis
        by (simp add: show_nat.simps [of n] show_nat.simps [of m])
    qed
  next
    case n: False
    show ?thesis
    proof (cases "m < 10")
      case True
      with n "1.prems" show_nat_nonempty [of "n div 10"] show ?thesis
        by (simp add: show_nat.simps [of n] show_nat.simps [of m])
    next
      case False
      with n "1.prems" have e: "show_nat (n div 10) = show_nat (m div 10)"
        and d: "digit_char (n mod 10) = digit_char (m mod 10)"
        by (simp_all add: show_nat.simps [of n] show_nat.simps [of m])
      from "1.IH" [OF n e] have "n div 10 = m div 10" .
      moreover from d have "n mod 10 = m mod 10" by (simp add: digit_char_inj)
      ultimately show ?thesis by (metis div_mult_mod_eq)
    qed
  qed
qed

lemma tier_label_inj: "tier_label i = tier_label j \<longleftrightarrow> i = j"
  by (auto simp: tier_label_def dest: show_nat_inj)

lemma tier_label_not_fee: "tier_label i \<noteq> ''Fixed Fee''"
  by (simp add: tier_label_def)

subsection \<open>The cascade\<close>

text \<open>One round of project.py's loop: the tier takes \<open>min(remaining, limit - previousLimit)\<close>,
  or all of \<open>remaining\<close> when it has no limit, and the loop ends when nothing remains.\<close>

lemma tier_loop_step:
  "tier_loop (t # rest) rem prev bd c =
     (let u = (case limit t of None \<Rightarrow> rem | Some l \<Rightarrow> min rem (l - prev));
          e = \<lparr>used = u, at_rate = tier_rate t, cost = u * tier_rate t\<rparr>
      in if limit t = None \<or> rem - u = 0 then (bd @ [e], c + cost e)
         else tier_loop rest (rem - u) (the (limit t)) (bd @ [e]) (c + cost e))"
  by (cases "limit t") (auto simp: min_def Let_def)

text \<open>\<open>remaining + previousLimit\<close> is the total consumption throughout the loop, so a tier
  ends the loop when it has no limit or its limit reaches the total, and then the tiers
  have absorbed, together, all of \<open>remaining\<close>.\<close>

lemma tier_loop_used_sum:
  "\<exists>t\<in>set tiers. limit t = None \<or> (\<exists>l. limit t = Some l \<and> rem + prev \<le> l) \<Longrightarrow>
   sum_list (map used (fst (tier_loop tiers rem prev bd c))) = sum_list (map used bd) + rem"
proof (induction tiers arbitrary: rem prev bd c)
  case Nil
  then show ?case by simp
next
  case (Cons t tiers)
  show ?case
  proof (cases "limit t")
    case None
    then show ?thesis by (simp add: Let_def)
  next
    case (Some l)
    show ?thesis
    proof (cases "rem \<le> l - prev")
      case True
      then show ?thesis using Some by (simp add: Let_def)
    next
      case False
      then have "\<not> rem + prev \<le> l" by simp
      with Cons.prems Some
      have "\<exists>t\<in>set tiers. limit t = None \<or> (\<exists>l'. limit t = Some l' \<and> (rem - (l - prev)) + l \<le> l')"
        by auto
      from Cons.IH [OF this] show ?thesis using Some False by (simp add: Let_def)
    qed
  qed
qed

lemma tier_loop_cost:
  "snd (tier_loop tiers rem prev bd c) - sum_list (map cost (fst (tier_loop tiers rem prev bd c)))
     = c - sum_list (map cost bd)"
  by (induction tiers arbitrary: rem prev bd c) (auto simp: Let_def split: option.splits)

text \<open>One round of projectv3.py's loop, for an entry that counts as a limit and for one that
  does not.\<close>

lemma tier_loop_v3_step:
  "i < length rates \<Longrightarrow> truthy limit' \<Longrightarrow> to_float sf limit' = Inr l \<Longrightarrow>
   tier_loop_v3 sf (limit' # rest) rates i rem prev bd =
     (let u = min rem (l - prev); bd' = dict_set bd (tier_label (i + 1)) (u * rates ! i)
      in if rem - u \<le> 0 then Inr (rem - u, bd')
         else tier_loop_v3 sf rest rates (i + 1) (rem - u) l bd')"
  by (simp add: Let_def)

lemma tier_loop_v3_unlimited:
  "i < length rates \<Longrightarrow> \<not> truthy limit' \<Longrightarrow>
   tier_loop_v3 sf (limit' # rest) rates i rem prev bd =
     Inr (0, dict_set bd (tier_label (i + 1)) (rem * rates ! i))"
  by (simp add: Let_def)

text \<open>
  Claim C1. For the tiers \<open>100 @ 0.20\<close>, \<open>300 @ 0.30\<close>, unlimited \<open>@ 0.40\<close> and any series
  totalling 250 kWh, project.py records 100 kWh costing 20 and 150 kWh costing 45, and
  projectv2.py and projectv3.py record the costs 20 under \<open>Tier 1\<close> and 45 under \<open>Tier 2\<close>;
  the third tier is not reached, gets no entry, and so absorbs and costs nothing; the total
  is 65 plus the fixed fee. In general a tier absorbs \<open>min(remaining, limit - previous)\<close>,
  a tier without limit absorbs all that remains, and the loop ends once nothing remains
  (project.py's and projectv3.py's loops, one round each). When some tier of project.py's
  list has no limit or a limit that reaches the total, the absorbed amounts add up to the
  total consumption and the bill is the sum of the recorded costs plus the fixed fee.
\<close>

theorem tier_cascade:
  "(kWh_sum df = 250 \<longrightarrow>
      tieredTariff df example_tiers fee =
        \<lparr>scheme = None, totalKWh = Some 250,
         breakdown = Tier_uses [\<lparr>used = 100, at_rate = 1 / 5, cost = 20\<rparr>,
                                \<lparr>used = 150, at_rate = 3 / 10, cost = 45\<rparr>],
         fixedFee = Some fee, totalBill = 65 + fee\<rparr> \<and>
      tieredTariff_v2 df example_tiers fee =
        \<lparr>scheme = None, totalKWh = None,
         breakdown = Costs [(''Tier 1'', 20), (''Tier 2'', 45), (''Fixed Fee'', fee)],
         fixedFee = None, totalBill = 65 + fee\<rparr> \<and>
      tieredTariff_v3 sf df example_limits example_rates fee =
        Inr \<lparr>scheme = Some ''Tiered'', totalKWh = Some 250,
             breakdown = Costs [(''Tier 1'', 20), (''Tier 2'', 45), (''Fixed Fee'', fee)],
             fixedFee = Some fee, totalBill = 65 + fee\<rparr>) \<and>
   tier_loop (t # rest) rem prev bd c =
     (let u = (case limit t of None \<Rightarrow> rem | Some l \<Rightarrow> min rem (l - prev));
          e = \<lparr>used = u, at_rate = tier_rate t, cost = u * tier_rate t\<rparr>
      in if limit t = None \<or> rem - u = 0 then (bd @ [e], c + cost e)
         else tier_loop rest (rem - u) (the (limit t)) (bd @ [e]) (c + cost e)) \<and>
   (i < length rates \<and> truthy limit' \<and> to_float sf limit' = Inr l' \<longrightarrow>
      tier_loop_v3 sf (limit' # rest') rates i rem prev bd' =
        (let u = min rem (l' - prev); bd'' = dict_set bd' (tier_label (i + 1)) (u * rates ! i)
         in if rem - u \<le> 0 then Inr (rem - u, bd'')
            else tier_loop_v3 sf rest' rates (i + 1) (rem - u) l' bd'')) \<and>
   (i < length rates \<and> \<not> truthy limit' \<longrightarrow>
      tier_loop_v3 sf (limit' # rest') rates i rem prev bd' =
        Inr (0, dict_set bd' (tier_label (i + 1)) (rem * rates ! i))) \<and>
   ((\<exists>t\<in>set tiers. limit t = None \<or> (\<exists>l. limit t = Some l \<and> kWh_sum df' \<le> l)) \<longrightarrow>
      (\<exists>us. breakdown (tieredTariff df' tiers fee) = Tier_uses us \<and>
            sum_list (map used us) = kWh_sum df' \<and>
            totalBill (tieredTariff df' tiers fee) = sum_list (map cost us) + fee))"
proof -
  have scenario:
    "tieredTariff df example_tiers fee =
        \<lparr>scheme = None, totalKWh = Some 250,
         breakdown = Tier_uses [\<lparr>used = 100, at_rate = 1 / 5, cost = 20\<rparr>,
                                \<lparr>used = 150, at_rate = 3 / 10, cost = 45\<rparr>],
         fixedFee = Some fee, totalBill = 65 + fee\<rparr> \<and>
      tieredTariff_v2 df example_tiers fee =
        \<lparr>scheme = None, totalKWh = None,
         breakdown = Costs [(''Tier 1'', 20), (''Tier 2'', 45), (''Fixed Fee'', fee)],
         fixedFee = None, totalBill = 65 + fee\<rparr> \<and>
      tieredTariff_v3 sf df example_limits example_rates fee =
        Inr \<lparr>scheme = Some ''Tiered'', totalKWh = Some 250,
             breakdown = Costs [(''Tier 1'', 20), (''Tier 2'', 45), (''Fixed Fee'', fee)],
             fixedFee = Some fee, totalBill = 65 + fee\<rparr>"
    if "kWh_sum df = 250"
    using that
    by (simp add: tieredTariff_def tieredTariff_v2_def tieredTariff_v3_def example_tiers_def
        example_limits_def example_rates_def tier_label_simps tier_label_Suc dict_values_def)
  have covered: "\<exists>us. breakdown (tieredTariff df' tiers fee) = Tier_uses us \<and>
            sum_list (map used us) = kWh_sum df' \<and>
            totalBill (tieredTariff df' tiers fee) = sum_list (map cost us) + fee"
    if "\<exists>t\<in>set tiers. limit t = None \<or> (\<exists>l. limit t = Some l \<and> kWh_sum df' \<le> l)"
  proof -
    from that have "\<exists>t\<in>set tiers. limit t = None \<or> (\<exists>l. limit t = Some l \<and> kWh_sum df' + 0 \<le> l)"
      by simp
    from tier_loop_used_sum [OF this, of "[]" 0]
    have u: "sum_list (map used (fst (tier_loop tiers (kWh_sum df') 0 [] 0))) = kWh_sum df'"
      by simp
    have c: "snd (tier_loop tiers (kWh_sum df') 0 [] 0) =
        sum_list (map cost (fst (tier_loop tiers (kWh_sum df') 0 [] 0)))"
      using tier_loop_cost [of tiers "kWh_sum df'" 0 "[]" 0] by simp
    show ?thesis
      using u c by (simp add: tieredTariff_def case_prod_beta Let_def)
  qed
  from scenario covered
    tier_loop_step [of t rest rem prev bd c]
    tier_loop_v3_step [of i rates limit' sf l' rest' rem prev bd']
    tier_loop_v3_unlimited [of i rates limit' sf rest' rem prev bd']
  show ?thesis by blast
qed

theorem tier_cascade_witness:
  "tieredTariff [reading_at 8 0 100, reading_at 9 0 150] example_tiers 10 =
     \<lparr>scheme = None, totalKWh = Some 250,
      breakdown = Tier_uses [\<lparr>used = 100, at_rate = 1 / 5, cost = 20\<rparr>,
                             \<lparr>used = 150, at_rate = 3 / 10, cost = 45\<rparr>],
      fixedFee = Some 10, totalBill = 75\<rparr> \<and>
   tieredTariff_v3 (\<lambda>s. None) [reading_at 8 0 100, reading_at 9 0 150]
       example_limits example_rates 10 =
     Inr \<lparr>scheme = Some ''Tiered'', totalKWh = Some 250,
          breakdown = Costs [(''Tier 1'', 20), (''Tier 2'', 45), (''Fixed Fee'', 10)],
          fixedFee = Some 10, totalBill = 75\<rparr>"
proof -
  have a: "kWh_sum [reading_at 8 0 100, reading_at 9 0 150] = 250"
    by (simp add: kWh_sum_def reading_at_def)
  show ?thesis
    using tier_cascade [of "[reading_at 8 0 100, reading_at 9 0 150]" 10 "\<lambda>s. None"
        "\<lparr>limit = None, tier_rate = 0\<rparr>" "[]" 0 0 "[]" 0 0 "[]" PyNone 0 "[]" "[]" "[]" "[]"] a
    by simp
qed



section \<open>The bill comparator\<close>







section \<open>The range filter\<close>

lemma dt_le_day_start: "dt_le \<lparr>day = d, tod = dt_time_min\<rparr> t \<longleftrightarrow> d \<le> day t"
  by (auto simp: dt_le_def dt_time_min_def)

lemma dt_le_day_end: "tod t \<le> dt_time_max \<Longrightarrow> dt_le t \<lparr>day = d, tod = dt_time_max\<rparr> \<longleftrightarrow> day t \<le> d"
  by (auto simp: dt_le_def)

text \<open>
  Claim C9, as stated, fails in both files. project.py's \<open>filterDataByDuration\<close> compares
  with the bounds as they are: the range from a day's midnight to the same midnight drops a
  reading taken at noon of that day. projectv3.py's \<open>filter_by_duration\<close> moves every bound,
  also one that carries a time of day: with the bounds \<open>12:00\<close> and \<open>13:00\<close> of one day it keeps
  a reading taken at \<open>08:00\<close>, which is not between them.
\<close>

theorem range_filter_counterexample:
  "filterDataByDuration [reading_at 12 0 5] \<lparr>day = 0, tod = 0\<rparr> \<lparr>day = 0, tod = 0\<rparr> = [] \<and>
   filter_by_duration [reading_at 8 0 5] \<lparr>day = 0, tod = hm 12 0\<rparr> \<lparr>day = 0, tod = hm 13 0\<rparr>
     = [reading_at 8 0 5] \<and>
   \<not> dt_le \<lparr>day = 0, tod = hm 12 0\<rparr> (timestamp (reading_at 8 0 5))"
  by (simp add: filterDataByDuration_def filter_by_duration_def reading_at_def dt_le_def hm_def
      dt_time_min_def dt_time_max_def)

text \<open>
  Claim C9, amended. project.py's \<open>filterDataByDuration\<close> keeps exactly the records whose
  timestamp lies between the two bounds as given, inclusively, and normalizes nothing.
  projectv3.py's \<open>filter_by_duration\<close> replaces every bound, whether or not it carries a time
  of day, by \<open>00:00:00\<close> of its date (start) and \<open>23:59:59.999999\<close> of its date (end), and keeps
  exactly the records between these, inclusively: for timestamps with a valid time of day
  these are the records whose date lies between the two dates, so filtering a single
  calendar day keeps all readings of that day and no other.
\<close>

theorem range_filter:
  "filterDataByDuration df startDate endDate =
     filter (\<lambda>r. dt_le startDate (timestamp r) \<and> dt_le (timestamp r) endDate) df \<and>
   filter_by_duration df start_dt end_dt =
     filter (\<lambda>r. dt_le \<lparr>day = day start_dt, tod = dt_time_min\<rparr> (timestamp r) \<and>
                 dt_le (timestamp r) \<lparr>day = day end_dt, tod = dt_time_max\<rparr>) df \<and>
   ((\<forall>r\<in>set df. tod (timestamp r) \<le> dt_time_max) \<longrightarrow>
      filter_by_duration df start_dt end_dt =
        filter (\<lambda>r. day start_dt \<le> day (timestamp r) \<and> day (timestamp r) \<le> day end_dt) df \<and>
      (day start_dt = day end_dt \<longrightarrow>
         filter_by_duration df start_dt end_dt =
           filter (\<lambda>r. day (timestamp r) = day start_dt) df))"
proof -
  have a: "filter_by_duration df start_dt end_dt =
        filter (\<lambda>r. day start_dt \<le> day (timestamp r) \<and> day (timestamp r) \<le> day end_dt) df"
    if v: "\<forall>r\<in>set df. tod (timestamp r) \<le> dt_time_max"
    unfolding filter_by_duration_def Let_def
    by (rule filter_cong) (simp_all add: dt_le_day_start dt_le_day_end v)
  have b: "filter_by_duration df start_dt end_dt =
           filter (\<lambda>r. day (timestamp r) = day start_dt) df"
    if v: "\<forall>r\<in>set df. tod (timestamp r) \<le> dt_time_max" and e: "day start_dt = day end_dt"
    unfolding a [OF v] by (rule filter_cong) (auto simp: e)
  show ?thesis
    using a b by (simp add: filterDataByDuration_def filter_by_duration_def)
qed

theorem range_filter_witness:
  "filter_by_duration
     [\<lparr>timestamp = \<lparr>day = 0, tod = hm 23 30\<rparr>, kWh = 1\<rparr>,
      \<lparr>timestamp = \<lparr>day = 1, tod = 0\<rparr>, kWh = 2\<rparr>,
      \<lparr>timestamp = \<lparr>day = 1, tod = dt_time_max\<rparr>, kWh = 3\<rparr>,
      \<lparr>timestamp = \<lparr>day = 2, tod = 0\<rparr>, kWh = 4\<rparr>]
     \<lparr>day = 1, tod = 0\<rparr> \<lparr>day = 1, tod = 0\<rparr> =
     [\<lparr>timestamp = \<lparr>day = 1, tod = 0\<rparr>, kWh = 2\<rparr>,
      \<lparr>timestamp = \<lparr>day = 1, tod = dt_time_max\<rparr>, kWh = 3\<rparr>]"
proof -
  define df where "df =
     [\<lparr>timestamp = \<lparr>day = 0, tod = hm 23 30\<rparr>, kWh = 1\<rparr>,
      \<lparr>timestamp = \<lparr>day = 1, tod = 0\<rparr>, kWh = 2\<rparr>,
      \<lparr>timestamp = \<lparr>day = 1, tod = dt_time_max\<rparr>, kWh = 3\<rparr>,
      \<lparr>timestamp = \<lparr>day = 2, tod = 0\<rparr>, kWh = (4::rat)\<rparr>]"
  have valid: "\<forall>r\<in>set df. tod (timestamp r) \<le> dt_time_max"
    by (simp add: df_def hm_def dt_time_max_def)
  have same: "day \<lparr>day = 1, tod = 0\<rparr> = day \<lparr>day = 1, tod = 0::nat\<rparr>"
    by simp
  have "filter_by_duration df \<lparr>day = 1, tod = 0\<rparr> \<lparr>day = 1, tod = 0\<rparr> =
      filter (\<lambda>r. day (timestamp r) = day \<lparr>day = 1, tod = 0::nat\<rparr>) df"
    using range_filter [of df "\<lparr>day = 0, tod = 0\<rparr>" "\<lparr>day = 0, tod = 0\<rparr>"
        "\<lparr>day = 1, tod = 0\<rparr>" "\<lparr>day = 1, tod = 0\<rparr>"] valid same
    by blast
  then show ?thesis by (simp add: df_def)
qed

section \<open>Rows that no window matches\<close>

lemma apply_windows_none:
  "\<forall>x\<in>set rates. is_default (snd x) \<or> \<not> window_matches (snd x) t \<Longrightarrow>
     apply_windows rates t k bd = (bd, False)"
  using apply_windows_skip [of rates t "[]" k bd] by simp

lemma apply_defaults_none:
  "\<forall>x\<in>set rates. \<not> is_default (snd x) \<Longrightarrow> apply_defaults rates k bd = bd"
  by (induction rates) auto

lemma apply_defaults_single:
  assumes "is_default w" "\<forall>x\<in>set (pre @ post). \<not> is_default (snd x)"
  shows "apply_defaults (pre @ (p, w) # post) k bd = dict_add bd p (k * rate w)"
proof -
  from assms(2) have "\<forall>x\<in>set pre. \<not> is_default (snd x)" "\<forall>x\<in>set post. \<not> is_default (snd x)"
    by auto
  then show ?thesis using assms(1)
    by (simp add: apply_defaults_append apply_defaults_none)
qed

lemma tou_row_unmatched:
  "\<forall>x\<in>set rates. is_default (snd x) \<or> \<not> window_matches (snd x) (tod (timestamp r)) \<Longrightarrow>
     tou_row rates bd r = apply_defaults rates (kWh r) bd"
  by (simp add: tou_row_def apply_windows_none Let_def)

lemma tou_rows_drop_row:
  assumes "\<And>bd. tou_row rates bd r = bd"
  shows "tou_rows rates (df1 @ r # df2) = tou_rows rates (df1 @ df2)"
  by (simp add: tou_rows_def assms)

text \<open>
  Claim C6, as stated, fails where the plan has no default window: a reading of 5 kWh at
  \<open>12:00\<close>, under a plan whose only window runs from \<open>22:00\<close> to \<open>07:00\<close>, leaves no trace in
  the result. project.py returns the empty breakdown and the fixed fee as the total, which
  is what it returns for the empty series, and projectv3.py returns the fixed fee alone;
  no key of either result counts the 5 kWh.
\<close>

theorem unmatched_record_counterexample:
  "touTariff [reading_at 12 0 5] night_only_plan 10 =
     \<lparr>scheme = None, totalKWh = None, breakdown = Costs [], fixedFee = Some 10, totalBill = 10\<rparr> \<and>
   touTariff [] night_only_plan 10 =
     \<lparr>scheme = None, totalKWh = None, breakdown = Costs [], fixedFee = Some 10, totalBill = 10\<rparr> \<and>
   touTariff_v3 [reading_at 12 0 5] night_only_plan 10 =
     \<lparr>scheme = Some ''TOU'', totalKWh = None, breakdown = Costs [(''Fixed Fee'', 10)],
      fixedFee = Some 10, totalBill = 10\<rparr>"
  by (simp add: tou_eval night_only_plan_def)

text \<open>
  Claim C6, amended. A record that no non-default window matches is billed to every
  default window of the plan: to the default window, when the plan has exactly one. When
  the plan has no default window the record contributes nothing: the breakdown is left as
  it was, and in all three files the result is the one of the series without that record,
  so no count of unbilled kWh is reported.
\<close>

theorem unmatched_record:
  "((\<forall>x\<in>set rates. is_default (snd x) \<or> \<not> window_matches (snd x) (tod (timestamp r))) \<longrightarrow>
      tou_row rates bd r = apply_defaults rates (kWh r) bd \<and>
      ((\<forall>x\<in>set rates. \<not> is_default (snd x)) \<longrightarrow>
         tou_row rates bd r = bd \<and>
         touTariff (df1 @ r # df2) rates fee = touTariff (df1 @ df2) rates fee \<and>
         touTariff_v2 (df1 @ r # df2) rates fee = touTariff_v2 (df1 @ df2) rates fee \<and>
         touTariff_v3 (df1 @ r # df2) rates fee = touTariff_v3 (df1 @ df2) rates fee)) \<and>
   (is_default w \<and> (\<forall>x\<in>set (pre @ post). \<not> is_default (snd x) \<and>
        \<not> window_matches (snd x) (tod (timestamp r))) \<longrightarrow>
      tou_row (pre @ (p, w) # post) bd r = dict_add bd p (kWh r * rate w))"
proof -
  have unmatched: "tou_row rates bd r = apply_defaults rates (kWh r) bd"
    if "\<forall>x\<in>set rates. is_default (snd x) \<or> \<not> window_matches (snd x) (tod (timestamp r))"
    using that by (rule tou_row_unmatched)
  have dropped: "tou_row rates bd r = bd \<and>
         touTariff (df1 @ r # df2) rates fee = touTariff (df1 @ df2) rates fee \<and>
         touTariff_v2 (df1 @ r # df2) rates fee = touTariff_v2 (df1 @ df2) rates fee \<and>
         touTariff_v3 (df1 @ r # df2) rates fee = touTariff_v3 (df1 @ df2) rates fee"
    if m: "\<forall>x\<in>set rates. is_default (snd x) \<or> \<not> window_matches (snd x) (tod (timestamp r))"
      and d: "\<forall>x\<in>set rates. \<not> is_default (snd x)"
  proof -
    have row: "tou_row rates b r = b" for b
      using tou_row_unmatched [OF m, of b] apply_defaults_none [OF d, of "kWh r" b] by simp
    then have "tou_rows rates (df1 @ r # df2) = tou_rows rates (df1 @ df2)"
      by (rule tou_rows_drop_row)
    with row show ?thesis
      by (simp add: touTariff_def touTariff_v2_def touTariff_v3_def)
  qed
  have single: "tou_row (pre @ (p, w) # post) bd r = dict_add bd p (kWh r * rate w)"
    if w: "is_default w"
      and o: "\<forall>x\<in>set (pre @ post). \<not> is_default (snd x) \<and>
        \<not> window_matches (snd x) (tod (timestamp r))"
  proof -
    from w o have "\<forall>x\<in>set (pre @ (p, w) # post).
        is_default (snd x) \<or> \<not> window_matches (snd x) (tod (timestamp r))"
      by auto
    from tou_row_unmatched [OF this, of bd]
    show ?thesis using apply_defaults_single [of w pre post p "kWh r" bd] w o by simp
  qed
  from unmatched dropped single show ?thesis by blast
qed

theorem unmatched_record_witness:
  "tou_row ([(''Off-Peak'', night_window)] @ (''Shoulder'', shoulder_window) # []) []
     (reading_at 12 0 5) = [(''Shoulder'', 5 / 4)] \<and>
   touTariff_v3 ([] @ reading_at 12 0 5 # [reading_at 23 0 2]) night_only_plan 10 =
     touTariff_v3 ([] @ [reading_at 23 0 2]) night_only_plan 10 \<and>
   touTariff_v3 ([] @ [reading_at 23 0 2]) night_only_plan 10 =
     \<lparr>scheme = Some ''TOU'', totalKWh = None,
      breakdown = Costs [(''Off-Peak'', 3 / 10), (''Fixed Fee'', 10)],
      fixedFee = Some 10, totalBill = 103 / 10\<rparr>"
proof -
  have a: "is_default shoulder_window \<and>
      (\<forall>x\<in>set ([(''Off-Peak'', night_window)] @ []). \<not> is_default (snd x) \<and>
        \<not> window_matches (snd x) (tod (timestamp (reading_at 12 0 5))))"
    by (simp add: shoulder_window_def night_window_def window_matches_def reading_at_def hm_def)
  have b: "(\<forall>x\<in>set night_only_plan.
        is_default (snd x) \<or> \<not> window_matches (snd x) (tod (timestamp (reading_at 12 0 5)))) \<and>
      (\<forall>x\<in>set night_only_plan. \<not> is_default (snd x))"
    by (simp add: night_only_plan_def night_window_def window_matches_def reading_at_def hm_def)
  have 1: "tou_row ([(''Off-Peak'', night_window)] @ (''Shoulder'', shoulder_window) # []) []
      (reading_at 12 0 5) = dict_add [] ''Shoulder'' (kWh (reading_at 12 0 5) * rate shoulder_window)"
    using unmatched_record [of night_only_plan "reading_at 12 0 5" "[]" "[]" "[reading_at 23 0 2]" 10
        shoulder_window "[(''Off-Peak'', night_window)]" "[]" "''Shoulder''"] a
    by blast
  have 2: "touTariff_v3 ([] @ reading_at 12 0 5 # [reading_at 23 0 2]) night_only_plan 10 =
      touTariff_v3 ([] @ [reading_at 23 0 2]) night_only_plan 10"
    using unmatched_record [of night_only_plan "reading_at 12 0 5" "[]" "[]" "[reading_at 23 0 2]" 10
        shoulder_window "[(''Off-Peak'', night_window)]" "[]" "''Shoulder''"] b
    by blast
  have 3: "touTariff_v3 ([] @ [reading_at 23 0 2]) night_only_plan 10 =
     \<lparr>scheme = Some ''TOU'', totalKWh = None,
      breakdown = Costs [(''Off-Peak'', 3 / 10), (''Fixed Fee'', 10)],
      fixedFee = Some 10, totalBill = 103 / 10\<rparr>"
    by (simp add: tou_eval night_only_plan_def)
  have 4: "dict_add [] ''Shoulder'' (kWh (reading_at 12 0 5) * rate shoulder_window) =
      [(''Shoulder'', 5 / 4)]"
    by (simp add: dict_add_def reading_at_def shoulder_window_def)
  from 1 2 3 4 show ?thesis by simp
qed

section \<open>The empty series\<close>

lemma tier_loop_empty_series:
  "\<forall>t\<in>set tiers. \<forall>l. limit t = Some l \<longrightarrow> 0 \<le> l \<Longrightarrow> snd (tier_loop tiers 0 0 [] 0) = 0"
  by (cases tiers) (auto simp: Let_def split: option.splits)

lemma tier_loop_v2_empty_series:
  "\<forall>t\<in>set tiers. \<forall>l. limit t = Some l \<longrightarrow> 0 \<le> l \<Longrightarrow> snd (tier_loop_v2 tiers i 0 0 [] 0) = 0"
  by (cases tiers) (auto simp: Let_def split: option.splits)

lemma tieredTariff_v3_empty_series:
  assumes "limits = [] \<or> (rates \<noteq> [] \<and>
      (\<not> truthy (hd limits) \<or> (\<exists>l. to_float sf (hd limits) = Inr l \<and> 0 \<le> l)))"
  shows "\<exists>b. tieredTariff_v3 sf [] limits rates fee = Inr b \<and> totalBill b = fee"
proof (cases limits)
  case Nil
  then show ?thesis by (simp add: tieredTariff_v3_def kWh_sum_def dict_values_def)
next
  case (Cons limit' rest)
  with assms have r: "rates \<noteq> []"
    and l: "\<not> truthy limit' \<or> (\<exists>l. to_float sf limit' = Inr l \<and> 0 \<le> l)"
    by simp_all
  from r have len: "0 < length rates" by simp
  show ?thesis
  proof (cases "truthy limit'")
    case False
    from tier_loop_v3_unlimited [OF len False, of sf rest 0 0 "[]"]
    show ?thesis unfolding Cons
      by (simp add: tieredTariff_v3_def kWh_sum_def dict_values_def tier_label_simps
          tier_label_not_fee del: tier_loop_v3.simps)
  next
    case True
    with l obtain l' where f: "to_float sf limit' = Inr l'" and nn: "0 \<le> l'" by blast
    from tier_loop_v3_step [OF len True f, of rest 0 0 "[]"] nn
    show ?thesis unfolding Cons
      by (simp add: tieredTariff_v3_def kWh_sum_def dict_values_def tier_label_simps
          tier_label_not_fee Let_def del: tier_loop_v3.simps)
  qed
qed

text \<open>
  Claim C7, as stated, fails in the calculators: over a series without readings,
  project.py's and projectv2.py's flat calculators return a bill, and its total is exactly
  the fixed fee.
\<close>

theorem empty_series_counterexample:
  "flatRateTariff [] (1 / 4) 10 =
     \<lparr>scheme = None, totalKWh = Some 0, breakdown = Costs [(''Energy Cost'', 0)],
      fixedFee = Some 10, totalBill = 10\<rparr> \<and>
   flatRateTariff_v2 [] (1 / 4) 10 =
     \<lparr>scheme = None, totalKWh = None, breakdown = Costs [(''Energy'', 0), (''Fixed Fee'', 10)],
      fixedFee = None, totalBill = 10\<rparr>"
  by (simp add: flatRateTariff_def flatRateTariff_v2_def kWh_sum_def)

text \<open>
  Claim C7, amended. No calculator refuses a series without readings. The flat and the
  time-of-use calculators of all three files return a bill whose total is exactly the
  fixed fee; so do the tiered calculators of project.py and projectv2.py when no limit
  is negative, and the one of projectv3.py when the tier list is empty or its first entry
  is unlimited or a number that is not negative (and a rate is there for it). The empty
  range is refused by a caller: project.py's \<open>billComparisonMenu\<close> returns without any bill
  when the filter leaves no record, and calculates on the filtered records otherwise.
\<close>

theorem empty_series:
  "totalBill (flatRateTariff [] r fee) = fee \<and>
   totalBill (flatRateTariff_v2 [] r fee) = fee \<and>
   totalBill (flatRateTariff_v3 [] r fee) = fee \<and>
   totalBill (touTariff [] touRates fee) = fee \<and>
   totalBill (touTariff_v2 [] touRates fee) = fee \<and>
   totalBill (touTariff_v3 [] touRates fee) = fee \<and>
   ((\<forall>t\<in>set tiers. \<forall>l. limit t = Some l \<longrightarrow> 0 \<le> l) \<longrightarrow>
      totalBill (tieredTariff [] tiers fee) = fee \<and>
      totalBill (tieredTariff_v2 [] tiers fee) = fee) \<and>
   (limits = [] \<or> (rates \<noteq> [] \<and>
      (\<not> truthy (hd limits) \<or> (\<exists>l. to_float sf (hd limits) = Inr l \<and> 0 \<le> l))) \<longrightarrow>
      (\<exists>b. tieredTariff_v3 sf [] limits rates fee = Inr b \<and> totalBill b = fee)) \<and>
   (filterDataByDuration df startDate endDate = [] \<longrightarrow>
      billComparisonMenu df startDate endDate ts = None) \<and>
   (filterDataByDuration df startDate endDate \<noteq> [] \<longrightarrow>
      billComparisonMenu df startDate endDate ts =
        Some (calculateBills (filterDataByDuration df startDate endDate) ts))"
proof -
  have flat: "totalBill (flatRateTariff [] r fee) = fee"
    "totalBill (flatRateTariff_v2 [] r fee) = fee"
    "totalBill (flatRateTariff_v3 [] r fee) = fee"
    by (simp_all add: flatRateTariff_def flatRateTariff_v2_def flatRateTariff_v3_def kWh_sum_def)
  have tou: "totalBill (touTariff [] touRates fee) = fee"
    "totalBill (touTariff_v2 [] touRates fee) = fee"
    "totalBill (touTariff_v3 [] touRates fee) = fee"
    by (simp_all add: touTariff_def touTariff_v2_def touTariff_v3_def tou_rows_def dict_values_def)
  have tiered: "totalBill (tieredTariff [] tiers fee) = fee \<and>
      totalBill (tieredTariff_v2 [] tiers fee) = fee"
    if "\<forall>t\<in>set tiers. \<forall>l. limit t = Some l \<longrightarrow> 0 \<le> l"
    using tier_loop_empty_series [OF that] tier_loop_v2_empty_series [OF that, of 1]
    by (simp add: tieredTariff_def tieredTariff_v2_def kWh_sum_def case_prod_beta)
  have menu: "filterDataByDuration df startDate endDate = [] \<longrightarrow>
      billComparisonMenu df startDate endDate ts = None"
    "filterDataByDuration df startDate endDate \<noteq> [] \<longrightarrow>
      billComparisonMenu df startDate endDate ts =
        Some (calculateBills (filterDataByDuration df startDate endDate) ts)"
    by (simp_all add: billComparisonMenu_def Let_def)
  from flat tou tiered menu tieredTariff_v3_empty_series [of limits rates sf fee]
  show ?thesis by blast
qed

theorem empty_series_witness:
  "totalBill (tieredTariff [] example_tiers 10) = 10 \<and>
   totalBill (tieredTariff_v2 [] example_tiers 10) = 10 \<and>
   (\<exists>b. tieredTariff_v3 (\<lambda>s. None) [] example_limits example_rates 10 = Inr b \<and>
        totalBill b = 10) \<and>
   billComparisonMenu [reading_at 8 0 5] \<lparr>day = 1, tod = 0\<rparr> \<lparr>day = 2, tod = 0\<rparr>
     \<lparr>flat_plan = Some (1 / 4, 10), tou_plan = None, tiered_plan = None\<rparr> = None"
proof -
  have a: "\<forall>t\<in>set example_tiers. \<forall>l. limit t = Some l \<longrightarrow> 0 \<le> l"
    by (simp add: example_tiers_def)
  have b: "example_limits = [] \<or> (example_rates \<noteq> [] \<and>
      (\<not> truthy (hd example_limits) \<or>
       (\<exists>l. to_float (\<lambda>s. None) (hd example_limits) = Inr l \<and> 0 \<le> l)))"
    by (simp add: example_limits_def example_rates_def)
  have c: "filterDataByDuration [reading_at 8 0 5] \<lparr>day = 1, tod = 0\<rparr> \<lparr>day = 2, tod = 0\<rparr> = []"
    by (simp add: filterDataByDuration_def reading_at_def dt_le_def)
  show ?thesis
    using empty_series [of "1 / 4" 10 night_plan example_tiers example_limits example_rates
        "\<lambda>s. None" "[reading_at 8 0 5]" "\<lparr>day = 1, tod = 0\<rparr>" "\<lparr>day = 2, tod = 0\<rparr>"
        "\<lparr>flat_plan = Some (1 / 4, 10), tou_plan = None, tiered_plan = None\<rparr>"] a b c
    by blast
qed

section \<open>The fixed fee and the breakdown\<close>

lemma dict_set_fresh: "k \<notin> set (dict_keys d) \<Longrightarrow> dict_set d k v = d @ [(k, v)]"
  by (induction d) (auto simp: dict_keys_def)

lemma dict_set_mem: "(k, v) \<in> set (dict_set d k v)"
  by (induction d) auto

lemma map_fst_dict_set:
  "map fst (dict_set d k v) = (if k \<in> fst ` set d then map fst d else map fst d @ [k])"
  by (induction d) force+

lemma dict_keys_dict_set: "set (dict_keys (dict_set d k v)) = insert k (set (dict_keys d))"
  by (auto simp: dict_keys_def map_fst_dict_set)

lemma tier_loop_v2_sum:
  assumes "c = sum_list (dict_values bd)" "\<forall>k\<in>set (dict_keys bd). \<exists>j<i. k = tier_label j"
  shows "snd (tier_loop_v2 tiers i rem prev bd c) =
           sum_list (dict_values (fst (tier_loop_v2 tiers i rem prev bd c))) \<and>
         (\<forall>k\<in>set (dict_keys (fst (tier_loop_v2 tiers i rem prev bd c))). \<exists>j. k = tier_label j)"
  using assms
proof (induction tiers arbitrary: i rem prev bd c)
  case Nil
  then show ?case by auto
next
  case (Cons t tiers)
  from Cons.prems(2) have fresh: "tier_label i \<notin> set (dict_keys bd)"
    by (auto simp: tier_label_inj)
  have app: "dict_set bd (tier_label i) v = bd @ [(tier_label i, v)]" for v
    using fresh by (rule dict_set_fresh)
  have sum: "sum_list (dict_values (dict_set bd (tier_label i) v)) = c + v" for v
    by (simp add: app dict_values_def Cons.prems(1))
  have keys: "\<forall>k\<in>set (dict_keys (dict_set bd (tier_label i) v)). \<exists>j<i + 1. k = tier_label j" for v
    using Cons.prems(2) by (auto simp: dict_keys_dict_set intro: less_SucI)
  have keys': "\<forall>k\<in>set (dict_keys (dict_set bd (tier_label i) v)). \<exists>j. k = tier_label j" for v
    using keys [of v] by blast
  show ?case
  proof (cases "limit t")
    case None
    then show ?thesis using sum keys' by (simp add: Let_def)
  next
    case (Some l)
    show ?thesis
    proof (cases "rem \<le> l - prev")
      case True
      then show ?thesis using Some sum keys' by (simp add: Let_def)
    next
      case False
      have "c + (l - prev) * tier_rate t =
          sum_list (dict_values (dict_set bd (tier_label i) ((l - prev) * tier_rate t)))"
        by (simp add: sum)
      from Cons.IH [OF this keys, of "rem - (l - prev)" l]
      show ?thesis using Some False by (simp add: Let_def)
    qed
  qed
qed

lemma tieredTariff_v2_fee: "fee_in_breakdown (tieredTariff_v2 df tiers fee) fee"
proof -
  obtain bd c where r: "tier_loop_v2 tiers 1 (kWh_sum df) 0 [] 0 = (bd, c)"
    by (cases "tier_loop_v2 tiers 1 (kWh_sum df) 0 [] 0")
  have "snd (tier_loop_v2 tiers 1 (kWh_sum df) 0 [] 0) =
           sum_list (dict_values (fst (tier_loop_v2 tiers 1 (kWh_sum df) 0 [] 0))) \<and>
         (\<forall>k\<in>set (dict_keys (fst (tier_loop_v2 tiers 1 (kWh_sum df) 0 [] 0))). \<exists>j. k = tier_label j)"
    by (rule tier_loop_v2_sum) (simp_all add: dict_values_def dict_keys_def)
  then have c: "c = sum_list (dict_values bd)" and k: "\<forall>k\<in>set (dict_keys bd). \<exists>j. k = tier_label j"
    unfolding r fst_conv snd_conv by blast+
  from k have "''Fixed Fee'' \<notin> set (dict_keys bd)"
    using tier_label_not_fee by metis
  then have "dict_set bd ''Fixed Fee'' fee = bd @ [(''Fixed Fee'', fee)]"
    by (rule dict_set_fresh)
  then show ?thesis
    unfolding fee_in_breakdown_def tieredTariff_v2_def Let_def r
    by (simp add: c dict_values_def)
qed

lemma dict_keys_dict_add: "set (dict_keys (dict_add d k v)) = insert k (set (dict_keys d))"
  by (simp add: dict_add_def dict_keys_dict_set)

lemma apply_windows_keys:
  "set (dict_keys (fst (apply_windows rates t k bd))) \<subseteq> set (dict_keys bd) \<union> set (dict_keys rates)"
proof (induction rates)
  case Nil
  then show ?case by simp
next
  case (Cons a rates)
  obtain p w where a: "a = (p, w)" by (cases a)
  have "set (dict_keys (dict_add bd p (k * rate w))) \<subseteq> insert p (set (dict_keys bd))"
    by (simp add: dict_keys_dict_add)
  with Cons.IH show ?case unfolding a apply_windows_Cons by (auto simp: dict_keys_def)
qed

lemma apply_defaults_keys:
  "set (dict_keys (apply_defaults rates k bd)) \<subseteq> set (dict_keys bd) \<union> set (dict_keys rates)"
proof (induction rates arbitrary: bd)
  case Nil
  then show ?case by simp
next
  case (Cons a rates)
  obtain p w where a: "a = (p, w)" by (cases a)
  have "set (dict_keys (apply_defaults rates k (dict_add bd p (k * rate w)))) \<subseteq>
      insert p (set (dict_keys bd)) \<union> set (dict_keys rates)"
    using Cons.IH [of "dict_add bd p (k * rate w)"] by (simp add: dict_keys_dict_add)
  moreover have "set (dict_keys (apply_defaults rates k bd)) \<subseteq> set (dict_keys bd) \<union> set (dict_keys rates)"
    by (rule Cons.IH)
  ultimately show ?case unfolding a by (auto simp: dict_keys_def)
qed

lemma tou_row_keys:
  "set (dict_keys (tou_row rates bd r)) \<subseteq> set (dict_keys bd) \<union> set (dict_keys rates)"
proof -
  obtain bd' applied where a: "apply_windows rates (tod (timestamp r)) (kWh r) bd = (bd', applied)"
    by (cases "apply_windows rates (tod (timestamp r)) (kWh r) bd")
  from apply_windows_keys [of rates "tod (timestamp r)" "kWh r" bd]
  have 1: "set (dict_keys bd') \<subseteq> set (dict_keys bd) \<union> set (dict_keys rates)" by (simp add: a)
  from apply_defaults_keys [of rates "kWh r" bd']
  have 2: "set (dict_keys (apply_defaults rates (kWh r) bd')) \<subseteq> set (dict_keys bd') \<union> set (dict_keys rates)" .
  show ?thesis using 1 2 by (auto simp: tou_row_def a Let_def)
qed

lemma foldl_tou_row_keys:
  "set (dict_keys (foldl (tou_row rates) bd df)) \<subseteq> set (dict_keys bd) \<union> set (dict_keys rates)"
proof (induction df arbitrary: bd)
  case Nil
  then show ?case by simp
next
  case (Cons r df)
  from Cons.IH [of "tou_row rates bd r"] tou_row_keys [of rates bd r]
  show ?case by auto
qed

lemma tou_rows_keys: "set (dict_keys (tou_rows rates df)) \<subseteq> set (dict_keys rates)"
  using foldl_tou_row_keys [of rates "[]" df] by (simp add: tou_rows_def dict_keys_def)

text \<open>
  Claim C4, as stated, fails: projectv3.py's flat calculator and project.py's time-of-use
  calculator return a breakdown without the fixed fee, and a total that exceeds the sum of
  the breakdown's values by the fee.
\<close>

theorem fixed_fee_convention_counterexample:
  "flatRateTariff_v3 [reading_at 8 0 100] (1 / 4) 10 =
     \<lparr>scheme = Some ''Flat'', totalKWh = Some 100, breakdown = Costs [(''Energy'', 25)],
      fixedFee = Some 10, totalBill = 35\<rparr> \<and>
   touTariff [reading_at 8 0 100] night_plan 10 =
     \<lparr>scheme = None, totalKWh = None, breakdown = Costs [(''Shoulder'', 25)],
      fixedFee = Some 10, totalBill = 35\<rparr> \<and>
   \<not> fee_in_breakdown (flatRateTariff_v3 [reading_at 8 0 100] (1 / 4) 10) 10 \<and>
   \<not> fee_in_breakdown (touTariff [reading_at 8 0 100] night_plan 10) 10"
  by (simp add: flatRateTariff_v3_def kWh_sum_def fee_in_breakdown_def tou_eval)

text \<open>
  Claim C4, amended. In projectv2.py all three calculators, and in projectv3.py the
  time-of-use and the tiered calculator, store the fixed fee in the breakdown under
  \<open>Fixed Fee\<close>, and the total is the sum of the breakdown's values. projectv3.py's flat
  calculator returns the breakdown with the single entry \<open>Energy\<close> (its callers add the fee
  afterwards), and project.py's three calculators keep the fee out of the breakdown (the
  flat one holds \<open>Energy Cost\<close> only, the time-of-use one holds period names of the plan
  only, the tiered one is a list of tier entries): for these the total is the sum of the
  breakdown's costs plus the fixed fee.
\<close>

theorem fixed_fee_convention:
  "fee_in_breakdown (flatRateTariff_v2 df r fee) fee \<and>
   fee_in_breakdown (touTariff_v2 df touRates fee) fee \<and>
   fee_in_breakdown (tieredTariff_v2 df tiers fee) fee \<and>
   fee_in_breakdown (touTariff_v3 df touRates fee) fee \<and>
   (tieredTariff_v3 sf df limits rates fee = Inr b \<longrightarrow> fee_in_breakdown b fee) \<and>
   fee_beside_breakdown (flatRateTariff_v3 df r fee) fee \<and>
   breakdown (flatRateTariff_v3 df r fee) = Costs [(''Energy'', kWh_sum df * r)] \<and>
   fee_beside_breakdown (flatRateTariff df r fee) fee \<and>
   breakdown (flatRateTariff df r fee) = Costs [(''Energy Cost'', kWh_sum df * r)] \<and>
   fee_beside_breakdown (touTariff df touRates fee) fee \<and>
   (\<exists>d. breakdown (touTariff df touRates fee) = Costs d \<and>
        set (dict_keys d) \<subseteq> set (dict_keys touRates)) \<and>
   fee_beside_breakdown (tieredTariff df tiers fee) fee"
proof -
  have v2: "fee_in_breakdown (flatRateTariff_v2 df r fee) fee"
    "fee_in_breakdown (touTariff_v2 df touRates fee) fee"
    "fee_in_breakdown (touTariff_v3 df touRates fee) fee"
    by (simp_all add: fee_in_breakdown_def flatRateTariff_v2_def touTariff_v2_def
        touTariff_v3_def dict_values_def dict_set_mem Let_def)
  have v3: "fee_in_breakdown b fee" if "tieredTariff_v3 sf df limits rates fee = Inr b"
    using that
    by (auto simp: tieredTariff_v3_def fee_in_breakdown_def dict_set_mem Let_def
        split: sum.splits simp del: tier_loop_v3.simps)
  have flat: "fee_beside_breakdown (flatRateTariff_v3 df r fee) fee"
    "breakdown (flatRateTariff_v3 df r fee) = Costs [(''Energy'', kWh_sum df * r)]"
    "fee_beside_breakdown (flatRateTariff df r fee) fee"
    "breakdown (flatRateTariff df r fee) = Costs [(''Energy Cost'', kWh_sum df * r)]"
    by (simp_all add: fee_beside_breakdown_def flatRateTariff_v3_def flatRateTariff_def
        dict_values_def Let_def)
  have tou: "fee_beside_breakdown (touTariff df touRates fee) fee"
    "\<exists>d. breakdown (touTariff df touRates fee) = Costs d \<and>
        set (dict_keys d) \<subseteq> set (dict_keys touRates)"
    by (simp_all add: fee_beside_breakdown_def touTariff_def tou_rows_keys Let_def)
  have tiered: "fee_beside_breakdown (tieredTariff df tiers fee) fee"
    using tier_loop_cost [of tiers "kWh_sum df" 0 "[]" 0]
    by (simp add: fee_beside_breakdown_def tieredTariff_def case_prod_beta Let_def)
  from v2 tieredTariff_v2_fee [of df tiers fee] v3 flat tou tiered show ?thesis by blast
qed

theorem fixed_fee_convention_witness:
  "fee_in_breakdown
     \<lparr>scheme = Some ''Tiered'', totalKWh = Some 250,
      breakdown = Costs [(''Tier 1'', 20), (''Tier 2'', 45), (''Fixed Fee'', 10)],
      fixedFee = Some 10, totalBill = 75\<rparr> 10 \<and>
   tieredTariff_v3 (\<lambda>s. None) [reading_at 8 0 100, reading_at 9 0 150]
       example_limits example_rates 10 =
     Inr \<lparr>scheme = Some ''Tiered'', totalKWh = Some 250,
          breakdown = Costs [(''Tier 1'', 20), (''Tier 2'', 45), (''Fixed Fee'', 10)],
          fixedFee = Some 10, totalBill = 75\<rparr>"
proof -
  have a: "tieredTariff_v3 (\<lambda>s. None) [reading_at 8 0 100, reading_at 9 0 150]
       example_limits example_rates 10 =
     Inr \<lparr>scheme = Some ''Tiered'', totalKWh = Some 250,
          breakdown = Costs [(''Tier 1'', 20), (''Tier 2'', 45), (''Fixed Fee'', 10)],
          fixedFee = Some 10, totalBill = 75\<rparr>"
    by (simp add: tieredTariff_v3_def example_limits_def example_rates_def kWh_sum_def
        reading_at_def tier_label_simps tier_label_Suc dict_values_def)
  from fixed_fee_convention [of "[reading_at 8 0 100, reading_at 9 0 150]" 0 10 "[]" "[]"
      "\<lambda>s. None" example_limits example_rates
      "\<lparr>scheme = Some ''Tiered'', totalKWh = Some 250,
          breakdown = Costs [(''Tier 1'', 20), (''Tier 2'', 45), (''Fixed Fee'', 10)],
          fixedFee = Some 10, totalBill = 75\<rparr>"] a
  show ?thesis by blast
qed

section \<open>Consumption beyond the last tier\<close>








end
